theory Spec2Isabelle
  imports Main
begin

section \<open>Python values and dictionaries\<close>

text \<open>
  The module \<^verbatim>\<open>wiotp/sdk/api/dsc/connectors.py\<close> handles decoded JSON: request bodies,
  response bodies and the backing mapping of a \<^verbatim>\<open>Connector\<close>. A Python dictionary is
  kept as the list of its items in insertion order; a dictionary has one item per key.
  JSON numbers are kept as integers (the module never computes with them).
\<close>

datatype pyval =
    PNone
  | PBool bool
  | PInt int
  | PStr string
  | PList "pyval list"
  | PDict "(string \<times> pyval) list"

type_synonym pydict = "(string \<times> pyval) list"

text \<open>\<^verbatim>\<open>d[k]\<close> as a lookup, \<^verbatim>\<open>k in d\<close> and \<^verbatim>\<open>d[k] = v\<close>.\<close>

definition dict_get :: "pydict \<Rightarrow> string \<Rightarrow> pyval option" where
  "dict_get d k = map_of d k"

definition dict_contains :: "pydict \<Rightarrow> string \<Rightarrow> bool" where
  "dict_contains d k = (dict_get d k \<noteq> None)"

fun dict_set :: "pydict \<Rightarrow> string \<Rightarrow> pyval \<Rightarrow> pydict" where
  "dict_set [] k v = [(k, v)]"
| "dict_set ((k', v') # d) k v =
     (if k' = k then (k, v) # d else (k', v') # dict_set d k v)"

definition dict_keys :: "pydict \<Rightarrow> string list" where
  "dict_keys d = map fst d"

text \<open>Python truth value testing, as used by \<^verbatim>\<open>if x:\<close>.\<close>

fun truthy :: "pyval \<Rightarrow> bool" where
  "truthy PNone = False"
| "truthy (PBool b) = b"
| "truthy (PInt i) = (i \<noteq> 0)"
| "truthy (PStr s) = (s \<noteq> [])"
| "truthy (PList xs) = (xs \<noteq> [])"
| "truthy (PDict d) = (d \<noteq> [])"

text \<open>
  The optional arguments of \<^verbatim>\<open>find\<close> default to \<^verbatim>\<open>None\<close>; their docstring types are
  string and boolean.
\<close>

fun py_str :: "string option \<Rightarrow> pyval" where
  "py_str None = PNone"
| "py_str (Some s) = PStr s"

fun py_bool :: "bool option \<Rightarrow> pyval" where
  "py_bool None = PNone"
| "py_bool (Some b) = PBool b"


section \<open>The transport collaborator and the errors\<close>

text \<open>
  The \<^verbatim>\<open>apiClient\<close> has \<^verbatim>\<open>get\<close>, \<^verbatim>\<open>post\<close> and \<^verbatim>\<open>put\<close>; each returns a response with a
  \<^verbatim>\<open>status_code\<close> and a decoded \<^verbatim>\<open>json()\<close> body. The network is the state: the list of
  the requests issued so far. A client answers a request as a function of the requests
  before it.
\<close>

record response =
  status_code :: int
  json :: pyval

datatype request =
    GET string pydict
  | POST string pydict
  | PUT string pydict

type_synonym api_client = "request list \<Rightarrow> request \<Rightarrow> response"

definition post :: "api_client \<Rightarrow> string \<Rightarrow> pydict \<Rightarrow> request list \<Rightarrow> response \<times> request list" where
  "post c url data net = (c net (POST url data), net @ [POST url data])"

definition put :: "api_client \<Rightarrow> string \<Rightarrow> pydict \<Rightarrow> request list \<Rightarrow> response \<times> request list" where
  "put c url data net = (c net (PUT url data), net @ [PUT url data])"

text \<open>A transport that answers every request with the same response (a test double).\<close>

definition mock_client :: "response \<Rightarrow> api_client" where
  "mock_client r net req = r"

text \<open>
  Modelled from the spec: the class \<^verbatim>\<open>ApiException\<close> (\<^verbatim>\<open>wiotp.sdk.exceptions\<close>) is not
  part of the sources. The spec has it as the one transport error, "constructed from the
  raw HTTP response (status code + body)", which the caller inspects: the error carries
  the response, and constructing it does not fail.
  \<^verbatim>\<open>KeyError\<close> carries the missing key; \<^verbatim>\<open>TypeError\<close> is what a call raises when its
  keyword arguments cannot be bound.
\<close>

datatype error =
    KeyError string
  | TypeError
  | ApiException response


section \<open>Connector\<close>

text \<open>
  Modelled from the spec: the classes \<^verbatim>\<open>Destinations\<close> and \<^verbatim>\<open>ForwardingRules\<close>
  (\<^verbatim>\<open>wiotp.sdk.api.dsc.destinations\<close>, \<^verbatim>\<open>wiotp.sdk.api.dsc.forwarding\<close>) are not part of
  the sources. The spec has them as "opaque nested collaborators", the "nested
  sub-resource handles" built from the \<^verbatim>\<open>id\<close>/\<^verbatim>\<open>type\<close> context: a handle keeps the
  arguments it was built from, and building it neither fails nor issues a request.
\<close>

record Destinations =
  dest_apiClient :: api_client
  dest_connectorId :: pyval
  dest_connectorType :: pyval

record ForwardingRules =
  rules_apiClient :: api_client
  rules_connectorId :: pyval

record Connector =
  apiClient :: api_client
  destinations :: Destinations
  rules :: ForwardingRules
  backing :: pydict

text \<open>
  \<^verbatim>\<open>Connector.__init__(self, apiClient, **kwargs)\<close>: \<^verbatim>\<open>kwargs["id"]\<close> is read first, then
  \<^verbatim>\<open>kwargs["type"]\<close>, each raising \<^verbatim>\<open>KeyError\<close> when missing; then
  \<^verbatim>\<open>dict.__init__(self, **kwargs)\<close> fills the backing mapping.
\<close>

definition Connector_init :: "api_client \<Rightarrow> pydict \<Rightarrow> error + Connector" where
  "Connector_init c kwargs =
     (case dict_get kwargs ''id'' of
        None \<Rightarrow> Inl (KeyError ''id'')
      | Some cid \<Rightarrow>
          (case dict_get kwargs ''type'' of
             None \<Rightarrow> Inl (KeyError ''type'')
           | Some ctype \<Rightarrow>
               Inr \<lparr> apiClient = c,
                     destinations = \<lparr> dest_apiClient = c, dest_connectorId = cid,
                                      dest_connectorType = ctype \<rparr>,
                     rules = \<lparr> rules_apiClient = c, rules_connectorId = cid \<rparr>,
                     backing = kwargs \<rparr>))"

text \<open>
  The call \<^verbatim>\<open>Connector(apiClient=self._apiClient, **r.json())\<close>: the body has to be a
  mapping, and none of its keys may name a parameter already bound (\<^verbatim>\<open>self\<close>,
  \<^verbatim>\<open>apiClient\<close>); otherwise the call raises \<^verbatim>\<open>TypeError\<close> before \<^verbatim>\<open>__init__\<close> runs.
\<close>

definition Connector_call :: "api_client \<Rightarrow> pyval \<Rightarrow> error + Connector" where
  "Connector_call c body =
     (case body of
        PDict kwargs \<Rightarrow>
          (if dict_contains kwargs ''self'' \<or> dict_contains kwargs ''apiClient''
           then Inl TypeError
           else Connector_init c kwargs)
      | _ \<Rightarrow> Inl TypeError)"

text \<open>
  Reading a property runs code on the object, so an accessor returns its result together
  with the object after the read. \<^verbatim>\<open>self[k]\<close> on the dictionary raises \<^verbatim>\<open>KeyError\<close> for
  a missing key.
\<close>

definition getitem :: "string \<Rightarrow> Connector \<Rightarrow> (error + pyval) \<times> Connector" where
  "getitem k self =
     (case dict_get (backing self) k of
        None \<Rightarrow> (Inl (KeyError k), self)
      | Some v \<Rightarrow> (Inr v, self))"

definition Connector_serviceId :: "Connector \<Rightarrow> (error + pyval) \<times> Connector" where
  "Connector_serviceId self = getitem ''serviceId'' self"

definition Connector_connectorType :: "Connector \<Rightarrow> (error + pyval) \<times> Connector" where
  "Connector_connectorType self = getitem ''type'' self"

definition Connector_configuration :: "Connector \<Rightarrow> (error + pyval) \<times> Connector" where
  "Connector_configuration self =
     (if dict_contains (backing self) ''configuration''
      then getitem ''configuration'' self
      else (Inr PNone, self))"

definition Connector_adminDisabled :: "Connector \<Rightarrow> (error + pyval) \<times> Connector" where
  "Connector_adminDisabled self = getitem ''adminDisabled'' self"

definition Connector_enabled :: "Connector \<Rightarrow> (error + pyval) \<times> Connector" where
  "Connector_enabled self = getitem ''enabled'' self"

definition Connector_timezone :: "Connector \<Rightarrow> (error + pyval) \<times> Connector" where
  "Connector_timezone self = getitem ''timezone'' self"

text \<open>The six properties by name, and a sequence of reads on one object.\<close>

datatype accessor =
  ServiceId | ConnectorType | Configuration | AdminDisabled | Enabled | Timezone

fun read :: "accessor \<Rightarrow> Connector \<Rightarrow> (error + pyval) \<times> Connector" where
  "read ServiceId = Connector_serviceId"
| "read ConnectorType = Connector_connectorType"
| "read Configuration = Connector_configuration"
| "read AdminDisabled = Connector_adminDisabled"
| "read Enabled = Connector_enabled"
| "read Timezone = Connector_timezone"

fun read_all :: "accessor list \<Rightarrow> Connector \<Rightarrow> (error + pyval) list \<times> Connector" where
  "read_all [] self = ([], self)"
| "read_all (a # as) self =
     (let (r, self') = read a self;
          (rs, self'') = read_all as self'
      in (r # rs, self''))"


section \<open>IterableConnectorList\<close>

datatype resource_class = ConnectorClass

record IterableList =
  list_apiClient :: api_client
  list_castToClass :: resource_class
  list_url :: string
  list_sort :: pyval
  list_filters :: pydict
  list_passApiClient :: bool

text \<open>
  Modelled from the spec: \<^verbatim>\<open>IterableList.__init__\<close> of \<^verbatim>\<open>wiotp.sdk.api.common\<close> is
  not part of the sources. The list "holds a target URL, an optional filter mapping
  and an internal fetch cursor", is "constructed per find call", and "no network call
  happens until the result is enumerated": construction stores its arguments and
  leaves the network as it is.
\<close>

definition IterableList_init ::
  "api_client \<Rightarrow> resource_class \<Rightarrow> string \<Rightarrow> pyval \<Rightarrow> pydict \<Rightarrow> bool \<Rightarrow> request list
     \<Rightarrow> IterableList \<times> request list" where
  "IterableList_init c cls url sortBy filters passApiClient net =
     (\<lparr> list_apiClient = c, list_castToClass = cls, list_url = url, list_sort = sortBy,
        list_filters = filters, list_passApiClient = passApiClient \<rparr>, net)"

text \<open>
  \<^verbatim>\<open>IterableConnectorList.__init__\<close> passes \<^verbatim>\<open>Connector\<close>, \<^verbatim>\<open>sort=None\<close> and
  \<^verbatim>\<open>passApiClient=True\<close> to the base class.
\<close>

definition IterableConnectorList_init ::
  "api_client \<Rightarrow> string \<Rightarrow> pydict \<Rightarrow> request list \<Rightarrow> IterableList \<times> request list" where
  "IterableConnectorList_init c url filters net =
     IterableList_init c ConnectorClass url PNone filters True net"


section \<open>Connectors\<close>

record Connectors =
  connectors_apiClient :: api_client

definition allHistorianConnectorsUrl :: string where
  "allHistorianConnectorsUrl = ''api/v0002/historianconnectors''"

definition oneHistorianConnectorUrl :: "string \<Rightarrow> string" where
  "oneHistorianConnectorUrl connectorId = ''api/v0002/historianconnectors/'' @ connectorId"

text \<open>The four \<^verbatim>\<open>if\<close> statements of \<^verbatim>\<open>find\<close> that fill \<^verbatim>\<open>queryParms\<close>.\<close>

definition find_queryParms ::
  "string option \<Rightarrow> string option \<Rightarrow> bool option \<Rightarrow> string option \<Rightarrow> pydict" where
  "find_queryParms nameFilter typeFilter enabledFilter serviceId =
     (let q0 = [];
          q1 = (if truthy (py_str nameFilter) then dict_set q0 ''name'' (py_str nameFilter) else q0);
          q2 = (if truthy (py_str typeFilter) then dict_set q1 ''type'' (py_str typeFilter) else q1);
          q3 = (if truthy (py_bool enabledFilter)
                then dict_set q2 ''enabled'' (py_bool enabledFilter) else q2);
          q4 = (if truthy (py_str serviceId)
                then dict_set q3 ''serviceId'' (py_str serviceId) else q3)
      in q4)"

definition Connectors_find ::
  "Connectors \<Rightarrow> string option \<Rightarrow> string option \<Rightarrow> bool option \<Rightarrow> string option
     \<Rightarrow> request list \<Rightarrow> IterableList \<times> request list" where
  "Connectors_find self nameFilter typeFilter enabledFilter serviceId net =
     IterableConnectorList_init (connectors_apiClient self) allHistorianConnectorsUrl
       (find_queryParms nameFilter typeFilter enabledFilter serviceId) net"

text \<open>
  \<^verbatim>\<open>create\<close>: the dictionary literal \<^verbatim>\<open>connector\<close>, the POST, the status check. The
  \<^verbatim>\<open>configuration\<close> argument is a parameter of the function.
\<close>

definition create_body ::
  "pyval \<Rightarrow> pyval \<Rightarrow> pyval \<Rightarrow> pyval \<Rightarrow> pyval \<Rightarrow> pyval \<Rightarrow> pyval \<Rightarrow> pydict" where
  "create_body name type serviceId timezone description enabled configuration =
     [(''name'', name), (''type'', type), (''description'', description),
      (''serviceId'', serviceId), (''timezone'', timezone), (''enabled'', enabled)]"

definition Connectors_create ::
  "Connectors \<Rightarrow> pyval \<Rightarrow> pyval \<Rightarrow> pyval \<Rightarrow> pyval \<Rightarrow> pyval \<Rightarrow> pyval \<Rightarrow> pyval
     \<Rightarrow> request list \<Rightarrow> (error + Connector) \<times> request list" where
  "Connectors_create self name type serviceId timezone description enabled configuration net =
     (let connector = create_body name type serviceId timezone description enabled configuration;
          url = ''api/v0002/historianconnectors'';
          (r, net') = post (connectors_apiClient self) url connector net
      in if status_code r = 201
         then (Connector_call (connectors_apiClient self) (json r), net')
         else (Inl (ApiException r), net'))"

text \<open>
  \<^verbatim>\<open>update\<close>: the URL from the connector id, the body built key by key, the PUT, the
  status check.
\<close>

definition update_body ::
  "string \<Rightarrow> pyval \<Rightarrow> pyval \<Rightarrow> pyval \<Rightarrow> pyval \<Rightarrow> pyval \<Rightarrow> pyval \<Rightarrow> pyval \<Rightarrow> pydict" where
  "update_body connectorId serviceId name type description timezone enabled configuration =
     (let b0 = [];
          b1 = dict_set b0 ''id'' (PStr connectorId);
          b2 = dict_set b1 ''name'' name;
          b3 = dict_set b2 ''type'' type;
          b4 = dict_set b3 ''serviceId'' serviceId;
          b5 = dict_set b4 ''description'' description;
          b6 = dict_set b5 ''timezone'' timezone;
          b7 = dict_set b6 ''enabled'' enabled;
          b8 = (if configuration \<noteq> PNone then dict_set b7 ''configuration'' configuration else b7)
      in b8)"

definition Connectors_update ::
  "Connectors \<Rightarrow> string \<Rightarrow> pyval \<Rightarrow> pyval \<Rightarrow> pyval \<Rightarrow> pyval \<Rightarrow> pyval \<Rightarrow> pyval \<Rightarrow> pyval
     \<Rightarrow> request list \<Rightarrow> (error + Connector) \<times> request list" where
  "Connectors_update self connectorId serviceId name type description timezone enabled
       configuration net =
     (let url = oneHistorianConnectorUrl connectorId;
          connectorBody = update_body connectorId serviceId name type description timezone
                            enabled configuration;
          (r, net') = put (connectors_apiClient self) url connectorBody net
      in if status_code r = 200
         then (Connector_call (connectors_apiClient self) (json r), net')
         else (Inl (ApiException r), net'))"


section \<open>Dictionary lemmas\<close>

lemma dict_get_dict_set:
  "dict_get (dict_set d k v) k' = (if k' = k then Some v else dict_get d k')"
  by (induction d) (auto simp: dict_get_def)


lemma dict_get_Nil: "dict_get [] k = None"
  by (simp add: dict_get_def)

lemma dict_get_None_iff: "dict_get d k = None \<longleftrightarrow> k \<notin> set (dict_keys d)"
  by (simp add: dict_get_def dict_keys_def map_of_eq_None_iff)






lemma update_body_get:
  "dict_get (update_body cid sid name type descr tz en cfg) k =
     (if k = ''configuration'' \<and> cfg \<noteq> PNone then Some cfg
      else if k = ''enabled'' then Some en
      else if k = ''timezone'' then Some tz
      else if k = ''description'' then Some descr
      else if k = ''serviceId'' then Some sid
      else if k = ''type'' then Some type
      else if k = ''name'' then Some name
      else if k = ''id'' then Some (PStr cid)
      else None)"
  by (simp add: update_body_def dict_get_def Let_def)

lemma update_body_keys:
  "set (dict_keys (update_body cid sid name type descr tz en cfg)) \<subseteq>
     {''id'', ''name'', ''type'', ''serviceId'', ''description'', ''timezone'', ''enabled'',
      ''configuration''}"
  by (auto simp: update_body_def dict_keys_def Let_def)

lemma snd_update:
  "snd (Connectors_update self cid sid name type descr tz en cfg net) =
     net @ [PUT (''api/v0002/historianconnectors/'' @ cid)
                (update_body cid sid name type descr tz en cfg)]"
  by (simp add: Connectors_update_def put_def oneHistorianConnectorUrl_def Let_def
      split: prod.splits)


section \<open>Construction and accessor lemmas\<close>

lemma Connector_call_ok:
  assumes "dict_contains kw ''id''" "dict_contains kw ''type''"
    "\<not> dict_contains kw ''self''" "\<not> dict_contains kw ''apiClient''"
  shows "\<exists>item. Connector_call c (PDict kw) = Inr item \<and> backing item = kw \<and> apiClient item = c"
  using assms by (auto simp: Connector_call_def Connector_init_def dict_contains_def)

lemma Connector_call_not_ApiException: "Connector_call c body \<noteq> Inl (ApiException r)"
  by (auto simp: Connector_call_def Connector_init_def split: pyval.splits option.splits)

lemma Connector_call_Inr:
  "Connector_call c body = Inr item \<Longrightarrow>
     body = PDict (backing item) \<and> dict_contains (backing item) ''id''
       \<and> dict_contains (backing item) ''type''"
  by (auto simp: Connector_call_def Connector_init_def dict_contains_def
      split: pyval.splits option.splits if_splits)

lemmas accessor_defs =
  Connector_serviceId_def Connector_connectorType_def Connector_configuration_def
  Connector_adminDisabled_def Connector_enabled_def Connector_timezone_def getitem_def

lemma snd_read: "snd (read a item) = item"
  by (cases a) (simp_all add: accessor_defs split: option.splits)

lemma read_all_pure: "read_all as item = (map (\<lambda>a. fst (read a item)) as, item)"
proof (induction as)
  case Nil
  show ?case by simp
next
  case (Cons a as)
  obtain r where r: "read a item = (r, item)"
    using snd_read [of a item] by (cases "read a item") simp
  show ?case by (simp add: r Cons.IH)
qed


section \<open>Connectors.find\<close>




text \<open>
  Claim C8. \<^verbatim>\<open>find\<close> issues no request: for all arguments the network after the call is
  the network before it, and the result is the list over the collection URL
  \<^verbatim>\<open>api/v0002/historianconnectors\<close> with the filter mapping that \<^verbatim>\<open>find\<close> built.
\<close>

theorem find_issues_no_request:
  "Connectors_find self nameFilter typeFilter enabledFilter serviceId net =
     (\<lparr> list_apiClient = connectors_apiClient self, list_castToClass = ConnectorClass,
        list_url = ''api/v0002/historianconnectors'', list_sort = PNone,
        list_filters = find_queryParms nameFilter typeFilter enabledFilter serviceId,
        list_passApiClient = True \<rparr>, net)"
  by (simp add: Connectors_find_def IterableConnectorList_init_def IterableList_init_def
      allHistorianConnectorsUrl_def)

theorem find_issues_no_request_witness:
  "snd (Connectors_find
         \<lparr> connectors_apiClient = mock_client \<lparr> status_code = 500, json = PNone \<rparr> \<rparr>
         (Some ''x'') None (Some True) (Some ''s1'') []) = []
   \<and> list_url (fst (Connectors_find
         \<lparr> connectors_apiClient = mock_client \<lparr> status_code = 500, json = PNone \<rparr> \<rparr>
         (Some ''x'') None (Some True) (Some ''s1'') [])) = ''api/v0002/historianconnectors''
   \<and> list_filters (fst (Connectors_find
         \<lparr> connectors_apiClient = mock_client \<lparr> status_code = 500, json = PNone \<rparr> \<rparr>
         (Some ''x'') None (Some True) (Some ''s1'') []))
       = [(''name'', PStr ''x''), (''enabled'', PBool True), (''serviceId'', PStr ''s1'')]"
  using find_issues_no_request
    [of "\<lparr> connectors_apiClient = mock_client \<lparr> status_code = 500, json = PNone \<rparr> \<rparr>"
        "Some ''x''" None "Some True" "Some ''s1''" "[]"]
  by (simp add: find_queryParms_def)

section \<open>Connectors.create\<close>

text \<open>
  Claim C2, evaluated at
  \<^verbatim>\<open>create("n", "cloudant", "s1", "UTC", "d", True, configuration={"x": 1})\<close>: the one
  request issued is the POST to the collection URL, and its body holds the six required
  fields only; the supplied configuration is not in it.
\<close>

theorem create_omits_configuration:
  "snd (Connectors_create
          \<lparr> connectors_apiClient = mock_client
              \<lparr> status_code = 201,
                json = PDict [(''id'', PStr ''c1''), (''type'', PStr ''cloudant'')] \<rparr> \<rparr>
          (PStr ''n'') (PStr ''cloudant'') (PStr ''s1'') (PStr ''UTC'') (PStr ''d'') (PBool True)
          (PDict [(''x'', PInt 1)]) [])
     = [POST ''api/v0002/historianconnectors''
          [(''name'', PStr ''n''), (''type'', PStr ''cloudant''), (''description'', PStr ''d''),
           (''serviceId'', PStr ''s1''), (''timezone'', PStr ''UTC''), (''enabled'', PBool True)]]
   \<and> dict_get
         [(''name'', PStr ''n''), (''type'', PStr ''cloudant''), (''description'', PStr ''d''),
          (''serviceId'', PStr ''s1''), (''timezone'', PStr ''UTC''), (''enabled'', PBool True)]
         ''configuration'' = None"
  by (simp add: Connectors_create_def post_def mock_client_def create_body_def dict_get_def)

text \<open>
  Claim C3, as amended. With \<open>r\<close> the response to the POST: when the status code of \<open>r\<close>
  is not 201, \<^verbatim>\<open>create\<close> raises \<^verbatim>\<open>ApiException\<close> carrying \<open>r\<close>, and it raises
  \<^verbatim>\<open>ApiException\<close> in no other case. When the status code is 201 and the decoded body is a
  JSON object with the keys \<^verbatim>\<open>id\<close> and \<^verbatim>\<open>type\<close> (and no key named \<^verbatim>\<open>self\<close> or
  \<^verbatim>\<open>apiClient\<close>), \<^verbatim>\<open>create\<close> returns a Connector whose backing mapping is that body, so
  its \<^verbatim>\<open>id\<close> is the body's. Whenever \<^verbatim>\<open>create\<close> returns a Connector, the status code was 201
  and the Connector wraps the decoded body.
\<close>

theorem create_returns_item_on_201_with_id_and_type:
  fixes self name type serviceId timezone description enabled configuration net kw item r'
  defines "r \<equiv> connectors_apiClient self net
     (POST ''api/v0002/historianconnectors''
        (create_body name type serviceId timezone description enabled configuration))"
  defines "res \<equiv> fst (Connectors_create self name type serviceId timezone description enabled
                         configuration net)"
  shows "(status_code r \<noteq> 201 \<longrightarrow> res = Inl (ApiException r))
    \<and> (status_code r = 201 \<and> json r = PDict kw \<and> dict_contains kw ''id''
         \<and> dict_contains kw ''type'' \<and> \<not> dict_contains kw ''self''
         \<and> \<not> dict_contains kw ''apiClient''
        \<longrightarrow> (\<exists>it. res = Inr it \<and> backing it = kw
                  \<and> dict_get (backing it) ''id'' = dict_get kw ''id''))
    \<and> (res = Inr item \<longrightarrow> status_code r = 201 \<and> json r = PDict (backing item))
    \<and> (res = Inl (ApiException r') \<longrightarrow> status_code r \<noteq> 201 \<and> r' = r)"
proof -
  have res: "res = (if status_code r = 201
                    then Connector_call (connectors_apiClient self) (json r)
                    else Inl (ApiException r))"
    unfolding res_def r_def by (simp add: Connectors_create_def post_def Let_def)
  show ?thesis
    unfolding res
    using Connector_call_ok [of kw "connectors_apiClient self"]
      Connector_call_not_ApiException [of "connectors_apiClient self" "json r" r']
      Connector_call_Inr [of "connectors_apiClient self" "json r" item]
    by auto
qed

text \<open>
  The theorem at a transport that answers 201 with body
  \<^verbatim>\<open>{id: "c1", type: "cloudant", name: "n"}\<close>: the result is an item whose \<^verbatim>\<open>id\<close> is
  \<^verbatim>\<open>"c1"\<close>.
\<close>

theorem create_returns_item_on_201_with_id_and_type_witness:
  "status_code \<lparr> status_code = 201,
       json = PDict [(''id'', PStr ''c1''), (''type'', PStr ''cloudant''), (''name'', PStr ''n'')] \<rparr>
     = 201
   \<and> dict_contains [(''id'', PStr ''c1''), (''type'', PStr ''cloudant''), (''name'', PStr ''n'')] ''id''
   \<and> dict_contains [(''id'', PStr ''c1''), (''type'', PStr ''cloudant''), (''name'', PStr ''n'')] ''type''
   \<and> \<not> dict_contains [(''id'', PStr ''c1''), (''type'', PStr ''cloudant''), (''name'', PStr ''n'')] ''self''
   \<and> \<not> dict_contains [(''id'', PStr ''c1''), (''type'', PStr ''cloudant''), (''name'', PStr ''n'')] ''apiClient''
   \<and> (\<exists>it. fst (Connectors_create
          \<lparr> connectors_apiClient = mock_client
              \<lparr> status_code = 201,
                json = PDict [(''id'', PStr ''c1''), (''type'', PStr ''cloudant''),
                              (''name'', PStr ''n'')] \<rparr> \<rparr>
          (PStr ''n'') (PStr ''cloudant'') (PStr ''s1'') (PStr ''UTC'') (PStr ''d'') (PBool True)
          PNone []) = Inr it
        \<and> dict_get (backing it) ''id'' = Some (PStr ''c1''))"
  using create_returns_item_on_201_with_id_and_type
    [where self = "\<lparr> connectors_apiClient = mock_client
              \<lparr> status_code = 201,
                json = PDict [(''id'', PStr ''c1''), (''type'', PStr ''cloudant''),
                              (''name'', PStr ''n'')] \<rparr> \<rparr>"
       and name = "PStr ''n''" and type = "PStr ''cloudant''" and serviceId = "PStr ''s1''"
       and timezone = "PStr ''UTC''" and description = "PStr ''d''" and enabled = "PBool True"
       and configuration = PNone and net = "[]"
       and kw = "[(''id'', PStr ''c1''), (''type'', PStr ''cloudant''), (''name'', PStr ''n'')]"]
  by (auto simp: mock_client_def dict_contains_def dict_get_def)

text \<open>
  Claim C3 as stated fails: a transport that answers 201 with the body \<^verbatim>\<open>{}\<close> makes
  \<^verbatim>\<open>create\<close> raise \<^verbatim>\<open>KeyError\<close> for \<^verbatim>\<open>id\<close>; the status code is 201 and no item is
  returned.
\<close>

theorem create_201_empty_body_counterexample:
  "status_code \<lparr> status_code = 201, json = PDict [] \<rparr> = 201
   \<and> fst (Connectors_create
            \<lparr> connectors_apiClient = mock_client \<lparr> status_code = 201, json = PDict [] \<rparr> \<rparr>
            (PStr ''n'') (PStr ''cloudant'') (PStr ''s1'') (PStr ''UTC'') (PStr ''d'')
            (PBool True) PNone [])
       = Inl (KeyError ''id'')"
  by (simp add: Connectors_create_def post_def mock_client_def Connector_call_def
      Connector_init_def dict_contains_def dict_get_def)

section \<open>Connectors.update\<close>

text \<open>
  Claim C4, as amended. \<^verbatim>\<open>update\<close> issues one PUT to
  \<^verbatim>\<open>api/v0002/historianconnectors/{connectorId}\<close>. With \<open>r\<close> the response: when the status
  code of \<open>r\<close> is not 200, \<^verbatim>\<open>update\<close> raises \<^verbatim>\<open>ApiException\<close> carrying \<open>r\<close>, whatever the
  code (4xx and 5xx alike), and it raises \<^verbatim>\<open>ApiException\<close> in no other case. When the
  status code is 200 and the decoded body is a JSON object with the keys \<^verbatim>\<open>id\<close> and
  \<^verbatim>\<open>type\<close> (and no key named \<^verbatim>\<open>self\<close> or \<^verbatim>\<open>apiClient\<close>), \<^verbatim>\<open>update\<close> returns a Connector
  whose backing mapping is that body. Whenever \<^verbatim>\<open>update\<close> returns a Connector, the status
  code was 200 and the Connector wraps the decoded body.
\<close>

theorem update_returns_item_on_200_with_id_and_type:
  fixes self connectorId serviceId name type description timezone enabled configuration net
    kw item r'
  defines "req \<equiv> PUT (''api/v0002/historianconnectors/'' @ connectorId)
      (update_body connectorId serviceId name type description timezone enabled configuration)"
  defines "r \<equiv> connectors_apiClient self net req"
  defines "out \<equiv> Connectors_update self connectorId serviceId name type description timezone
                      enabled configuration net"
  shows "snd out = net @ [req]
    \<and> (status_code r \<noteq> 200 \<longrightarrow> fst out = Inl (ApiException r))
    \<and> (status_code r = 200 \<and> json r = PDict kw \<and> dict_contains kw ''id''
         \<and> dict_contains kw ''type'' \<and> \<not> dict_contains kw ''self''
         \<and> \<not> dict_contains kw ''apiClient''
        \<longrightarrow> (\<exists>it. fst out = Inr it \<and> backing it = kw))
    \<and> (fst out = Inr item \<longrightarrow> status_code r = 200 \<and> json r = PDict (backing item))
    \<and> (fst out = Inl (ApiException r') \<longrightarrow> status_code r \<noteq> 200 \<and> r' = r)"
proof -
  have res: "fst out = (if status_code r = 200
                        then Connector_call (connectors_apiClient self) (json r)
                        else Inl (ApiException r))"
    unfolding out_def r_def req_def
    by (simp add: Connectors_update_def put_def oneHistorianConnectorUrl_def Let_def)
  have net: "snd out = net @ [req]"
    unfolding out_def req_def by (rule snd_update)
  show ?thesis
    unfolding res net
    using Connector_call_ok [of kw "connectors_apiClient self"]
      Connector_call_not_ApiException [of "connectors_apiClient self" "json r" r']
      Connector_call_Inr [of "connectors_apiClient self" "json r" item]
    by auto
qed

text \<open>
  The theorem at two transports. One answers 200 with the body
  \<^verbatim>\<open>{id: "c1", type: "cloudant", name: "n2"}\<close>: \<^verbatim>\<open>update\<close> of connector \<^verbatim>\<open>"c1"\<close> puts to
  \<^verbatim>\<open>api/v0002/historianconnectors/c1\<close> and returns an item that wraps that body. The other
  answers 503 with the body \<^verbatim>\<open>{message: "unavailable"}\<close>: \<^verbatim>\<open>update\<close> raises
  \<^verbatim>\<open>ApiException\<close> with that response.
\<close>

theorem update_returns_item_on_200_with_id_and_type_witness:
  "status_code \<lparr> status_code = 200,
       json = PDict [(''id'', PStr ''c1''), (''type'', PStr ''cloudant''),
                     (''name'', PStr ''n2'')] \<rparr> = 200
   \<and> dict_contains [(''id'', PStr ''c1''), (''type'', PStr ''cloudant''),
                     (''name'', PStr ''n2'')] ''id''
   \<and> dict_contains [(''id'', PStr ''c1''), (''type'', PStr ''cloudant''),
                     (''name'', PStr ''n2'')] ''type''
   \<and> \<not> dict_contains [(''id'', PStr ''c1''), (''type'', PStr ''cloudant''),
                       (''name'', PStr ''n2'')] ''self''
   \<and> \<not> dict_contains [(''id'', PStr ''c1''), (''type'', PStr ''cloudant''),
                       (''name'', PStr ''n2'')] ''apiClient''
   \<and> (\<exists>it. fst (Connectors_update
          \<lparr> connectors_apiClient = mock_client
              \<lparr> status_code = 200,
                json = PDict [(''id'', PStr ''c1''), (''type'', PStr ''cloudant''),
                              (''name'', PStr ''n2'')] \<rparr> \<rparr>
          ''c1'' (PStr ''s1'') (PStr ''n2'') (PStr ''cloudant'') (PStr ''d'') (PStr ''UTC'')
          (PBool True) PNone []) = Inr it
        \<and> backing it = [(''id'', PStr ''c1''), (''type'', PStr ''cloudant''),
                        (''name'', PStr ''n2'')])
   \<and> snd (Connectors_update
          \<lparr> connectors_apiClient = mock_client
              \<lparr> status_code = 200,
                json = PDict [(''id'', PStr ''c1''), (''type'', PStr ''cloudant''),
                              (''name'', PStr ''n2'')] \<rparr> \<rparr>
          ''c1'' (PStr ''s1'') (PStr ''n2'') (PStr ''cloudant'') (PStr ''d'') (PStr ''UTC'')
          (PBool True) PNone [])
     = [PUT ''api/v0002/historianconnectors/c1''
          [(''id'', PStr ''c1''), (''name'', PStr ''n2''), (''type'', PStr ''cloudant''),
           (''serviceId'', PStr ''s1''), (''description'', PStr ''d''),
           (''timezone'', PStr ''UTC''), (''enabled'', PBool True)]]
   \<and> status_code \<lparr> status_code = 503,
         json = PDict [(''message'', PStr ''unavailable'')] \<rparr> \<noteq> 200
   \<and> fst (Connectors_update
        \<lparr> connectors_apiClient = mock_client
            \<lparr> status_code = 503, json = PDict [(''message'', PStr ''unavailable'')] \<rparr> \<rparr>
        ''c1'' (PStr ''s1'') (PStr ''n2'') (PStr ''cloudant'') (PStr ''d'') (PStr ''UTC'')
        (PBool True) PNone [])
     = Inl (ApiException
             \<lparr> status_code = 503, json = PDict [(''message'', PStr ''unavailable'')] \<rparr>)"
  using update_returns_item_on_200_with_id_and_type
    [where self = "\<lparr> connectors_apiClient = mock_client
              \<lparr> status_code = 200,
                json = PDict [(''id'', PStr ''c1''), (''type'', PStr ''cloudant''),
                              (''name'', PStr ''n2'')] \<rparr> \<rparr>"
       and connectorId = "''c1''" and serviceId = "PStr ''s1''" and name = "PStr ''n2''"
       and type = "PStr ''cloudant''" and description = "PStr ''d''"
       and timezone = "PStr ''UTC''" and enabled = "PBool True" and configuration = PNone
       and net = "[]"
       and kw = "[(''id'', PStr ''c1''), (''type'', PStr ''cloudant''), (''name'', PStr ''n2'')]"]
    update_returns_item_on_200_with_id_and_type
    [where self = "\<lparr> connectors_apiClient = mock_client
            \<lparr> status_code = 503, json = PDict [(''message'', PStr ''unavailable'')] \<rparr> \<rparr>"
       and connectorId = "''c1''" and serviceId = "PStr ''s1''" and name = "PStr ''n2''"
       and type = "PStr ''cloudant''" and description = "PStr ''d''"
       and timezone = "PStr ''UTC''" and enabled = "PBool True" and configuration = PNone
       and net = "[]" and kw = "[]"]
  by (auto simp: mock_client_def update_body_def dict_contains_def dict_get_def)

text \<open>
  Claim C4 as stated fails: a transport that answers 200 with the body \<^verbatim>\<open>{id: "c1"}\<close>
  makes \<^verbatim>\<open>update\<close> raise \<^verbatim>\<open>KeyError\<close> for \<^verbatim>\<open>type\<close>; the status code is 200 and no item
  is returned.
\<close>

theorem update_200_body_without_type_counterexample:
  "status_code \<lparr> status_code = 200, json = PDict [(''id'', PStr ''c1'')] \<rparr> = 200
   \<and> fst (Connectors_update
            \<lparr> connectors_apiClient =
                mock_client \<lparr> status_code = 200, json = PDict [(''id'', PStr ''c1'')] \<rparr> \<rparr>
            ''c1'' (PStr ''s1'') (PStr ''n'') (PStr ''cloudant'') (PStr ''d'') (PStr ''UTC'')
            (PBool True) PNone [])
       = Inl (KeyError ''type'')"
  by (simp add: Connectors_update_def put_def mock_client_def Connector_call_def
      Connector_init_def dict_contains_def dict_get_def)

text \<open>
  Claim C5. The body of the PUT that \<^verbatim>\<open>update\<close> issues holds \<^verbatim>\<open>id\<close> (the connector id),
  \<^verbatim>\<open>name\<close>, \<^verbatim>\<open>type\<close>, \<^verbatim>\<open>serviceId\<close>, \<^verbatim>\<open>description\<close>, \<^verbatim>\<open>timezone\<close> and \<^verbatim>\<open>enabled\<close> with
  the supplied values, and has a \<^verbatim>\<open>configuration\<close> key if and only if the configuration
  argument is not \<^verbatim>\<open>None\<close>, then with the supplied value; it has no other key.
\<close>

theorem update_body_configuration_iff_supplied:
  "\<exists>body. snd (Connectors_update self connectorId serviceId name type description timezone
                      enabled configuration net)
                 = net @ [PUT (''api/v0002/historianconnectors/'' @ connectorId) body]
     \<and> dict_get body ''id'' = Some (PStr connectorId)
     \<and> dict_get body ''name'' = Some name
     \<and> dict_get body ''type'' = Some type
     \<and> dict_get body ''serviceId'' = Some serviceId
     \<and> dict_get body ''description'' = Some description
     \<and> dict_get body ''timezone'' = Some timezone
     \<and> dict_get body ''enabled'' = Some enabled
     \<and> (dict_contains body ''configuration'' \<longleftrightarrow> configuration \<noteq> PNone)
     \<and> (configuration \<noteq> PNone \<longrightarrow> dict_get body ''configuration'' = Some configuration)
     \<and> set (dict_keys body) \<subseteq> {''id'', ''name'', ''type'', ''serviceId'', ''description'',
                                  ''timezone'', ''enabled'', ''configuration''}"
proof -
  let ?b = "update_body connectorId serviceId name type description timezone enabled
              configuration"
  show ?thesis
    using update_body_keys [of connectorId serviceId name type description timezone enabled
        configuration]
    by (intro exI [of _ ?b]) (simp add: snd_update update_body_get dict_contains_def)
qed

text \<open>
  The theorem at \<^verbatim>\<open>configuration={"x": 1}\<close>: the body of the PUT contains
  \<^verbatim>\<open>configuration: {"x": 1}\<close>.
\<close>

theorem update_body_configuration_iff_supplied_witness:
  "PDict [(''x'', PInt 1)] \<noteq> PNone
   \<and> (\<exists>body. snd (Connectors_update
          \<lparr> connectors_apiClient = mock_client \<lparr> status_code = 200, json = PDict [] \<rparr> \<rparr>
          ''c1'' (PStr ''s1'') (PStr ''n'') (PStr ''cloudant'') (PStr ''d'') (PStr ''UTC'')
          (PBool False) (PDict [(''x'', PInt 1)]) [])
        = [PUT ''api/v0002/historianconnectors/c1'' body]
      \<and> dict_get body ''configuration'' = Some (PDict [(''x'', PInt 1)])
      \<and> dict_get body ''enabled'' = Some (PBool False))"
  using update_body_configuration_iff_supplied
    [of "\<lparr> connectors_apiClient = mock_client \<lparr> status_code = 200, json = PDict [] \<rparr> \<rparr>"
        "''c1''" "PStr ''s1''" "PStr ''n''" "PStr ''cloudant''" "PStr ''d''" "PStr ''UTC''"
        "PBool False" "PDict [(''x'', PInt 1)]" "[]"]
  by auto

section \<open>Connector: construction and accessors\<close>

text \<open>
  Claim C10, as amended. A Connector is constructed from a field mapping by the call
  \<^verbatim>\<open>Connector(apiClient=..., **mapping)\<close>. For a mapping with no key named \<^verbatim>\<open>self\<close> or
  \<^verbatim>\<open>apiClient\<close>: without \<^verbatim>\<open>id\<close> the construction fails with \<^verbatim>\<open>KeyError\<close> for \<^verbatim>\<open>id\<close>, with
  \<^verbatim>\<open>id\<close> and without \<^verbatim>\<open>type\<close> it fails with \<^verbatim>\<open>KeyError\<close> for \<^verbatim>\<open>type\<close>, and with both
  keys it returns a Connector that keeps the mapping. A mapping with a key named
  \<^verbatim>\<open>self\<close> or \<^verbatim>\<open>apiClient\<close> fails with \<^verbatim>\<open>TypeError\<close> at the call. Every construction
  that succeeds keeps the mapping, which contains \<^verbatim>\<open>id\<close> and \<^verbatim>\<open>type\<close>: no mapping lacking
  one of them yields a Connector.
\<close>

theorem constructor_raises_KeyError_without_id_or_type:
  "(\<not> dict_contains kwargs ''self'' \<and> \<not> dict_contains kwargs ''apiClient''
      \<and> \<not> dict_contains kwargs ''id''
        \<longrightarrow> Connector_call c (PDict kwargs) = Inl (KeyError ''id''))
   \<and> (\<not> dict_contains kwargs ''self'' \<and> \<not> dict_contains kwargs ''apiClient''
      \<and> dict_contains kwargs ''id'' \<and> \<not> dict_contains kwargs ''type''
        \<longrightarrow> Connector_call c (PDict kwargs) = Inl (KeyError ''type''))
   \<and> (dict_contains kwargs ''self'' \<or> dict_contains kwargs ''apiClient''
        \<longrightarrow> Connector_call c (PDict kwargs) = Inl TypeError)
   \<and> (Connector_call c (PDict kwargs) = Inr item \<longrightarrow>
        backing item = kwargs \<and> dict_contains (backing item) ''id''
          \<and> dict_contains (backing item) ''type'')
   \<and> (\<not> dict_contains kwargs ''self'' \<and> \<not> dict_contains kwargs ''apiClient''
      \<and> dict_contains kwargs ''id'' \<and> dict_contains kwargs ''type''
        \<longrightarrow> (\<exists>it. Connector_call c (PDict kwargs) = Inr it \<and> backing it = kwargs))"
  by (auto simp: Connector_call_def Connector_init_def dict_contains_def split: option.splits)

text \<open>
  The theorem at three mappings: \<^verbatim>\<open>{type: "cloudant", name: "n"}\<close> lacks \<^verbatim>\<open>id\<close>,
  \<^verbatim>\<open>{id: "c1", name: "n"}\<close> lacks \<^verbatim>\<open>type\<close>, and \<^verbatim>\<open>{id: "c1", type: "cloudant"}\<close> has both
  keys.
\<close>

theorem constructor_raises_KeyError_without_id_or_type_witness:
  "\<not> dict_contains [(''type'', PStr ''cloudant''), (''name'', PStr ''n'')] ''self''
   \<and> \<not> dict_contains [(''type'', PStr ''cloudant''), (''name'', PStr ''n'')] ''apiClient''
   \<and> \<not> dict_contains [(''type'', PStr ''cloudant''), (''name'', PStr ''n'')] ''id''
   \<and> Connector_call (mock_client \<lparr> status_code = 200, json = PNone \<rparr>)
        (PDict [(''type'', PStr ''cloudant''), (''name'', PStr ''n'')]) = Inl (KeyError ''id'')
   \<and> dict_contains [(''id'', PStr ''c1''), (''name'', PStr ''n'')] ''id''
   \<and> \<not> dict_contains [(''id'', PStr ''c1''), (''name'', PStr ''n'')] ''type''
   \<and> Connector_call (mock_client \<lparr> status_code = 200, json = PNone \<rparr>)
        (PDict [(''id'', PStr ''c1''), (''name'', PStr ''n'')]) = Inl (KeyError ''type'')
   \<and> dict_contains [(''id'', PStr ''c1''), (''type'', PStr ''cloudant'')] ''id''
   \<and> dict_contains [(''id'', PStr ''c1''), (''type'', PStr ''cloudant'')] ''type''
   \<and> (\<exists>it. Connector_call (mock_client \<lparr> status_code = 200, json = PNone \<rparr>)
        (PDict [(''id'', PStr ''c1''), (''type'', PStr ''cloudant'')]) = Inr it
        \<and> backing it = [(''id'', PStr ''c1''), (''type'', PStr ''cloudant'')])"
  using constructor_raises_KeyError_without_id_or_type
    [where c = "mock_client \<lparr> status_code = 200, json = PNone \<rparr>"
       and kwargs = "[(''type'', PStr ''cloudant''), (''name'', PStr ''n'')]"]
    constructor_raises_KeyError_without_id_or_type
    [where c = "mock_client \<lparr> status_code = 200, json = PNone \<rparr>"
       and kwargs = "[(''id'', PStr ''c1''), (''name'', PStr ''n'')]"]
    constructor_raises_KeyError_without_id_or_type
    [where c = "mock_client \<lparr> status_code = 200, json = PNone \<rparr>"
       and kwargs = "[(''id'', PStr ''c1''), (''type'', PStr ''cloudant'')]"]
  by (auto simp: dict_contains_def dict_get_def)

text \<open>
  Claim C10 as stated fails: the mapping \<^verbatim>\<open>{self: "z"}\<close> lacks \<^verbatim>\<open>id\<close> and \<^verbatim>\<open>type\<close>, and
  constructing a Connector from it fails with \<^verbatim>\<open>TypeError\<close>, not with a key-not-found
  error.
\<close>

theorem constructor_TypeError_on_self_key_counterexample:
  "\<not> dict_contains [(''self'', PStr ''z'')] ''id''
   \<and> \<not> dict_contains [(''self'', PStr ''z'')] ''type''
   \<and> Connector_call (mock_client \<lparr> status_code = 200, json = PNone \<rparr>)
        (PDict [(''self'', PStr ''z'')]) = Inl TypeError"
  by (simp add: Connector_call_def dict_contains_def dict_get_def)

text \<open>
  Claim C6. The \<^verbatim>\<open>configuration\<close> accessor returns the value of the backing mapping's
  \<^verbatim>\<open>configuration\<close> field when the field is present and \<^verbatim>\<open>None\<close> when it is absent; it
  raises in neither case.
\<close>

theorem configuration_accessor_never_raises:
  "Connector_configuration item =
     (Inr (case dict_get (backing item) ''configuration'' of Some v \<Rightarrow> v | None \<Rightarrow> PNone),
      item)"
  by (simp add: Connector_configuration_def getitem_def dict_contains_def split: option.splits)

text \<open>The theorem at an item whose mapping has \<^verbatim>\<open>configuration: {"x": 1}\<close>.\<close>

theorem configuration_accessor_never_raises_witness:
  "fst (Connector_configuration
     \<lparr> apiClient = mock_client \<lparr> status_code = 200, json = PNone \<rparr>,
       destinations = \<lparr> dest_apiClient = mock_client \<lparr> status_code = 200, json = PNone \<rparr>,
                        dest_connectorId = PStr ''c1'', dest_connectorType = PStr ''cloudant'' \<rparr>,
       rules = \<lparr> rules_apiClient = mock_client \<lparr> status_code = 200, json = PNone \<rparr>,
                 rules_connectorId = PStr ''c1'' \<rparr>,
       backing = [(''id'', PStr ''c1''), (''type'', PStr ''cloudant''),
                  (''configuration'', PDict [(''x'', PInt 1)])] \<rparr>)
   = Inr (PDict [(''x'', PInt 1)])"
  using configuration_accessor_never_raises
    [of "\<lparr> apiClient = mock_client \<lparr> status_code = 200, json = PNone \<rparr>,
       destinations = \<lparr> dest_apiClient = mock_client \<lparr> status_code = 200, json = PNone \<rparr>,
                        dest_connectorId = PStr ''c1'', dest_connectorType = PStr ''cloudant'' \<rparr>,
       rules = \<lparr> rules_apiClient = mock_client \<lparr> status_code = 200, json = PNone \<rparr>,
                 rules_connectorId = PStr ''c1'' \<rparr>,
       backing = [(''id'', PStr ''c1''), (''type'', PStr ''cloudant''),
                  (''configuration'', PDict [(''x'', PInt 1)])] \<rparr>"]
  by (simp add: dict_get_def)

text \<open>
  Claim C7. Each of the accessors \<^verbatim>\<open>serviceId\<close>, \<^verbatim>\<open>connectorType\<close>, \<^verbatim>\<open>adminDisabled\<close>,
  \<^verbatim>\<open>enabled\<close>, \<^verbatim>\<open>timezone\<close> fails with \<^verbatim>\<open>KeyError\<close> when its field (\<^verbatim>\<open>serviceId\<close>,
  \<^verbatim>\<open>type\<close>, \<^verbatim>\<open>adminDisabled\<close>, \<^verbatim>\<open>enabled\<close>, \<^verbatim>\<open>timezone\<close>) is absent from the backing
  mapping, and returns the mapping's value for the field when it is present.
\<close>

theorem required_accessors_raise_KeyError_when_absent:
  "fst (Connector_serviceId item) =
      (case dict_get (backing item) ''serviceId'' of
         None \<Rightarrow> Inl (KeyError ''serviceId'') | Some v \<Rightarrow> Inr v)
   \<and> fst (Connector_connectorType item) =
      (case dict_get (backing item) ''type'' of
         None \<Rightarrow> Inl (KeyError ''type'') | Some v \<Rightarrow> Inr v)
   \<and> fst (Connector_adminDisabled item) =
      (case dict_get (backing item) ''adminDisabled'' of
         None \<Rightarrow> Inl (KeyError ''adminDisabled'') | Some v \<Rightarrow> Inr v)
   \<and> fst (Connector_enabled item) =
      (case dict_get (backing item) ''enabled'' of
         None \<Rightarrow> Inl (KeyError ''enabled'') | Some v \<Rightarrow> Inr v)
   \<and> fst (Connector_timezone item) =
      (case dict_get (backing item) ''timezone'' of
         None \<Rightarrow> Inl (KeyError ''timezone'') | Some v \<Rightarrow> Inr v)"
  by (simp add: Connector_serviceId_def Connector_connectorType_def Connector_adminDisabled_def
      Connector_enabled_def Connector_timezone_def getitem_def split: option.splits)

text \<open>
  The theorem at an item with \<^verbatim>\<open>enabled\<close> and \<^verbatim>\<open>type\<close> and without \<^verbatim>\<open>timezone\<close> and
  \<^verbatim>\<open>serviceId\<close>.
\<close>

theorem required_accessors_raise_KeyError_when_absent_witness:
  "fst (Connector_enabled
     \<lparr> apiClient = mock_client \<lparr> status_code = 200, json = PNone \<rparr>,
       destinations = \<lparr> dest_apiClient = mock_client \<lparr> status_code = 200, json = PNone \<rparr>,
                        dest_connectorId = PStr ''c1'', dest_connectorType = PStr ''cloudant'' \<rparr>,
       rules = \<lparr> rules_apiClient = mock_client \<lparr> status_code = 200, json = PNone \<rparr>,
                 rules_connectorId = PStr ''c1'' \<rparr>,
       backing = [(''id'', PStr ''c1''), (''type'', PStr ''cloudant''),
                  (''enabled'', PBool False)] \<rparr>)
     = Inr (PBool False)
   \<and> fst (Connector_timezone
     \<lparr> apiClient = mock_client \<lparr> status_code = 200, json = PNone \<rparr>,
       destinations = \<lparr> dest_apiClient = mock_client \<lparr> status_code = 200, json = PNone \<rparr>,
                        dest_connectorId = PStr ''c1'', dest_connectorType = PStr ''cloudant'' \<rparr>,
       rules = \<lparr> rules_apiClient = mock_client \<lparr> status_code = 200, json = PNone \<rparr>,
                 rules_connectorId = PStr ''c1'' \<rparr>,
       backing = [(''id'', PStr ''c1''), (''type'', PStr ''cloudant''),
                  (''enabled'', PBool False)] \<rparr>)
     = Inl (KeyError ''timezone'')"
  using required_accessors_raise_KeyError_when_absent
    [of "\<lparr> apiClient = mock_client \<lparr> status_code = 200, json = PNone \<rparr>,
       destinations = \<lparr> dest_apiClient = mock_client \<lparr> status_code = 200, json = PNone \<rparr>,
                        dest_connectorId = PStr ''c1'', dest_connectorType = PStr ''cloudant'' \<rparr>,
       rules = \<lparr> rules_apiClient = mock_client \<lparr> status_code = 200, json = PNone \<rparr>,
                 rules_connectorId = PStr ''c1'' \<rparr>,
       backing = [(''id'', PStr ''c1''), (''type'', PStr ''cloudant''),
                  (''enabled'', PBool False)] \<rparr>"]
  by (simp add: dict_get_def)

text \<open>
  Claim C9. Reading an accessor leaves the object, and so its backing mapping, as it was;
  a sequence of reads, in any order and of any length, returns for each read what a
  single read of that accessor returns on the starting object and ends in the starting
  object; two objects with the same backing mapping give the same value for every
  accessor.
\<close>

theorem accessors_are_pure_projections:
  "snd (read a item) = item
   \<and> read_all as item = (map (\<lambda>a. fst (read a item)) as, item)
   \<and> (backing item' = backing item \<longrightarrow> fst (read a item') = fst (read a item))"
  by (cases a) (simp_all add: snd_read read_all_pure accessor_defs split: option.splits)

text \<open>
  The theorem at the reads \<^verbatim>\<open>enabled\<close>, \<^verbatim>\<open>configuration\<close>, \<^verbatim>\<open>enabled\<close>, \<^verbatim>\<open>serviceId\<close> on
  an item with \<^verbatim>\<open>enabled: True\<close> and neither of the other two fields.
\<close>

theorem accessors_are_pure_projections_witness:
  "read_all [Enabled, Configuration, Enabled, ServiceId]
     \<lparr> apiClient = mock_client \<lparr> status_code = 200, json = PNone \<rparr>,
       destinations = \<lparr> dest_apiClient = mock_client \<lparr> status_code = 200, json = PNone \<rparr>,
                        dest_connectorId = PStr ''c1'', dest_connectorType = PStr ''cloudant'' \<rparr>,
       rules = \<lparr> rules_apiClient = mock_client \<lparr> status_code = 200, json = PNone \<rparr>,
                 rules_connectorId = PStr ''c1'' \<rparr>,
       backing = [(''id'', PStr ''c1''), (''type'', PStr ''cloudant''),
                  (''enabled'', PBool True)] \<rparr>
   = ([Inr (PBool True), Inr PNone, Inr (PBool True), Inl (KeyError ''serviceId'')],
      \<lparr> apiClient = mock_client \<lparr> status_code = 200, json = PNone \<rparr>,
       destinations = \<lparr> dest_apiClient = mock_client \<lparr> status_code = 200, json = PNone \<rparr>,
                        dest_connectorId = PStr ''c1'', dest_connectorType = PStr ''cloudant'' \<rparr>,
       rules = \<lparr> rules_apiClient = mock_client \<lparr> status_code = 200, json = PNone \<rparr>,
                 rules_connectorId = PStr ''c1'' \<rparr>,
       backing = [(''id'', PStr ''c1''), (''type'', PStr ''cloudant''),
                  (''enabled'', PBool True)] \<rparr>)"
  using accessors_are_pure_projections
    [where as = "[Enabled, Configuration, Enabled, ServiceId]" and a = Enabled
       and item' = "\<lparr> apiClient = mock_client \<lparr> status_code = 200, json = PNone \<rparr>,
       destinations = \<lparr> dest_apiClient = mock_client \<lparr> status_code = 200, json = PNone \<rparr>,
                        dest_connectorId = PStr ''c1'', dest_connectorType = PStr ''cloudant'' \<rparr>,
       rules = \<lparr> rules_apiClient = mock_client \<lparr> status_code = 200, json = PNone \<rparr>,
                 rules_connectorId = PStr ''c1'' \<rparr>,
       backing = [(''id'', PStr ''c1''), (''type'', PStr ''cloudant''),
                  (''enabled'', PBool True)] \<rparr>"
       and item = "\<lparr> apiClient = mock_client \<lparr> status_code = 200, json = PNone \<rparr>,
       destinations = \<lparr> dest_apiClient = mock_client \<lparr> status_code = 200, json = PNone \<rparr>,
                        dest_connectorId = PStr ''c1'', dest_connectorType = PStr ''cloudant'' \<rparr>,
       rules = \<lparr> rules_apiClient = mock_client \<lparr> status_code = 200, json = PNone \<rparr>,
                 rules_connectorId = PStr ''c1'' \<rparr>,
       backing = [(''id'', PStr ''c1''), (''type'', PStr ''cloudant''),
                  (''enabled'', PBool True)] \<rparr>"]
  by (simp add: accessor_defs dict_get_def dict_contains_def)

end
